theory Spec2Isabelle
  imports Main "HOL-Library.Sublist"
begin

section \<open>The registry client of \<^verbatim>\<open>pkg/registry\<close>\<close>

text \<open>
  A shallow embedding of the Go package \<^verbatim>\<open>registry\<close>: registry construction
  (\<^verbatim>\<open>registry_client.go\<close> and the file holding \<^verbatim>\<open>newFromTransport\<close>), the URL builders,
  \<^verbatim>\<open>Digest\<close>, \<^verbatim>\<open>Blob\<close> and \<^verbatim>\<open>GetRespBody\<close>. Go strings and byte slices are
  byte sequences, modelled as \<^typ>\<open>string\<close>. A Go result pair \<^verbatim>\<open>(v, err)\<close> is a sum:
  \<open>Inl err\<close> when \<^verbatim>\<open>err != nil\<close>, \<open>Inr v\<close> otherwise. Calls to the logger only
  write to the log and are left out.
\<close>

subsection \<open>Fragments of the Go standard library\<close>

type_synonym bytes = string

text \<open>
  The error values that can reach a caller of this package. \<open>StatusCodeError c\<close> is
  \<^verbatim>\<open>fmt.Errorf("got status code: %d", c)\<close>; \<open>ErrBasicAuth\<close> is the package's sentinel
  \<^verbatim>\<open>errors.New("basic auth required")\<close>; the others are produced by the standard library
  (URL parsing in \<^verbatim>\<open>http.NewRequest\<close>, the transport, reading a body, gzip, JSON).
\<close>

datatype error =
    ErrBasicAuth
  | StatusCodeError int
  | UrlError string
  | TransportError string
  | ReadError string
  | GzipError string
  | JsonError string

text \<open>
  A function either returns or panics; a panic is not an error value the caller can test.
\<close>

datatype 'a outcome = Returns 'a | Panics

text \<open>
  \<^verbatim>\<open>fmt.Sprintf\<close> on string operands, for the directives \<^verbatim>\<open>%s\<close> and \<^verbatim>\<open>%%\<close>, the only
  ones the package applies to strings. A \<^verbatim>\<open>%s\<close> without operand prints
  \<^verbatim>\<open>%!s(MISSING)\<close>, operands left over print \<^verbatim>\<open>%!(EXTRA string=..., ...)\<close>. Any other
  character, also a \<^verbatim>\<open>%\<close> that starts neither directive, is copied (other verbs are
  outside this fragment).
\<close>

fun extra_operands :: "string list \<Rightarrow> string" where
  "extra_operands [] = []"
| "extra_operands [a] = ''string='' @ a"
| "extra_operands (a # b # as) = ''string='' @ a @ '', '' @ extra_operands (b # as)"

fun Sprintf :: "string \<Rightarrow> string list \<Rightarrow> string" where
  "Sprintf [] args = (if args = [] then [] else ''%!(EXTRA '' @ extra_operands args @ '')'')"
| "Sprintf [c] args = c # Sprintf [] args"
| "Sprintf (c # d # fs) args =
     (if c = CHR ''%'' \<and> d = CHR ''s'' then
        (case args of
           [] \<Rightarrow> ''%!s(MISSING)'' @ Sprintf fs []
         | a # as \<Rightarrow> a @ Sprintf fs as)
      else if c = CHR ''%'' \<and> d = CHR ''%'' then CHR ''%'' # Sprintf fs args
      else c # Sprintf (d # fs) args)"

text \<open>\<^verbatim>\<open>strings.TrimSuffix\<close>: drops the suffix when the string ends with it.\<close>

definition TrimSuffix :: "string \<Rightarrow> string \<Rightarrow> string" where
  "TrimSuffix s suf = (if suffix suf s then take (length s - length suf) s else s)"

text \<open>
  The compiled pattern \<^verbatim>\<open>reProtocol = regexp.MustCompile("^https?://")\<close>. Without the
  multi-line flag \<^verbatim>\<open>^\<close> matches at the start of the text only, so the pattern matches
  exactly the strings that begin with \<^verbatim>\<open>http://\<close> or \<^verbatim>\<open>https://\<close>, and
  \<^verbatim>\<open>ReplaceAllString\<close> replaces that one leading match (the replacement used by the
  package is the empty string, which has no \<^verbatim>\<open>$\<close> to expand).
\<close>

definition reProtocol_MatchString :: "string \<Rightarrow> bool" where
  "reProtocol_MatchString s = (prefix ''http://'' s \<or> prefix ''https://'' s)"

definition reProtocol_ReplaceAllString :: "string \<Rightarrow> string \<Rightarrow> string" where
  "reProtocol_ReplaceAllString s repl =
     (if prefix ''http://'' s then repl @ drop 7 s
      else if prefix ''https://'' s then repl @ drop 8 s
      else s)"

text \<open>
  \<^verbatim>\<open>http.Header\<close> is a map from header names to the list of their values. Names are
  kept in canonical MIME form; the names this package uses (\<^verbatim>\<open>Accept\<close>,
  \<^verbatim>\<open>Authorization\<close>, \<^verbatim>\<open>Content-Encoding\<close>) are written in that form in the source,
  and the canonical form of \<^verbatim>\<open>WWW-Authenticate\<close> is \<^verbatim>\<open>Www-Authenticate\<close>.
\<close>

type_synonym Header = "string \<rightharpoonup> string list"

definition Header_Get :: "Header \<Rightarrow> string \<Rightarrow> string" where
  "Header_Get h k = (case h k of None \<Rightarrow> [] | Some [] \<Rightarrow> [] | Some (v # _) \<Rightarrow> v)"

definition Header_Add :: "Header \<Rightarrow> string \<Rightarrow> string \<Rightarrow> Header" where
  "Header_Add h k v = h(k \<mapsto> (case h k of None \<Rightarrow> [v] | Some vs \<Rightarrow> vs @ [v]))"

definition Header_Set :: "Header \<Rightarrow> string \<Rightarrow> string \<Rightarrow> Header" where
  "Header_Set h k v = h(k \<mapsto> [v])"

subsection \<open>Data model\<close>

text \<open>The fields of docker's \<^verbatim>\<open>types.AuthConfig\<close> that the package reads or writes.\<close>

record AuthConfig =
  Username :: string
  Password :: string
  ServerAddress :: string

text \<open>\<^verbatim>\<open>Opt\<close>: the options for a new registry. \<^verbatim>\<open>time.Duration\<close> counts nanoseconds.\<close>

record Opt =
  Domain :: string
  Timeout :: int
  Headers :: "string \<rightharpoonup> string"
  UseSSL :: bool

record http_Client =
  Timeout :: int

record Registry =
  URL :: string
  Domain :: string
  Username :: string
  Password :: string
  Client :: http_Client
  Opt :: Opt

text \<open>
  Modelled from the spec: the declaration of \<^verbatim>\<open>Image\<close> is not among the sources; the
  spec gives its fields as Domain, Path, Tag and Digest (an optional cache), and the code
  reads \<^verbatim>\<open>image.Path\<close>, \<^verbatim>\<open>image.Tag\<close> and \<^verbatim>\<open>image.Digest\<close>. A \<^verbatim>\<open>digest.Digest\<close> is a
  string.
\<close>

record Image =
  Domain :: string
  Path :: string
  Tag :: string
  Digest :: string

text \<open>\<^verbatim>\<open>http.RoundTripper\<close>: \<^verbatim>\<open>New\<close> passes the default one, which \<^verbatim>\<open>newFromTransport\<close> never reads.\<close>

datatype RoundTripper = DefaultTransport

definition DefaultDockerRegistry :: string where
  "DefaultDockerRegistry = ''https://registry-1.docker.io''"

text \<open>\<^verbatim>\<open>DefaultTimeout = 30 * time.Second\<close>, in nanoseconds.\<close>

definition DefaultTimeout :: int where
  "DefaultTimeout = 30 * 1000000000"

subsection \<open>Registry construction\<close>

definition setDefaultRegistry :: "string \<Rightarrow> string" where
  "setDefaultRegistry serverAddress =
     (if serverAddress = ''docker.io'' \<or> serverAddress = [] then DefaultDockerRegistry
      else serverAddress)"

definition GetAuthConfig :: "string \<Rightarrow> string \<Rightarrow> string \<Rightarrow> error + AuthConfig" where
  "GetAuthConfig username password registry =
     (let registry = setDefaultRegistry registry in
      if username \<noteq> [] \<and> password \<noteq> [] \<and> registry \<noteq> [] then
        Inr \<lparr> AuthConfig.Username = username, Password = password, ServerAddress = registry \<rparr>
      else
        Inr \<lparr> AuthConfig.Username = [], Password = [], ServerAddress = registry \<rparr>)"

definition newFromTransport :: "AuthConfig \<Rightarrow> RoundTripper \<Rightarrow> Opt \<Rightarrow> error + Registry" where
  "newFromTransport auth transport opt0 =
     (let opt = (if length (Opt.Domain opt0) < 1 \<or> Opt.Domain opt0 = ''docker.io''
                 then opt0\<lparr> Opt.Domain := ServerAddress auth \<rparr> else opt0);
          url = TrimSuffix (Opt.Domain opt) ''/'';
          authURL = TrimSuffix (ServerAddress auth) ''/'';
          url = (if \<not> reProtocol_MatchString url then
                   (if UseSSL opt then ''https://'' @ url else ''http://'' @ url)
                 else url);
          authURL = (if \<not> reProtocol_MatchString authURL then
                       (if UseSSL opt then ''https://'' @ authURL else ''http://'' @ authURL)
                     else authURL)
      in Inr \<lparr> URL = url,
               Registry.Domain = reProtocol_ReplaceAllString url [],
               Registry.Username = AuthConfig.Username auth,
               Registry.Password = AuthConfig.Password auth,
               Client = \<lparr> http_Client.Timeout = DefaultTimeout \<rparr>,
               Opt = opt \<rparr>)"

definition New :: "AuthConfig \<Rightarrow> Opt \<Rightarrow> error + Registry" where
  "New auth opt = (let transport = DefaultTransport in newFromTransport auth transport opt)"

definition CreateRegistryClient :: "string \<Rightarrow> string \<Rightarrow> string \<Rightarrow> string \<Rightarrow> error + Registry" where
  "CreateRegistryClient authURL username password domain =
     (let authDomain = (if authURL = [] then domain else authURL) in
      case GetAuthConfig username password authDomain of
        Inl err \<Rightarrow> Inl err
      | Inr auth \<Rightarrow>
          New auth \<lparr> Opt.Domain = domain, Timeout = 0, Headers = Map.empty, UseSSL = False \<rparr>)"

subsection \<open>URL builders\<close>

text \<open>
  \<^verbatim>\<open>r.url(pathTemplate, args...)\<close>. The operands the package passes are strings
  (\<^verbatim>\<open>image.Digest\<close> is a \<^verbatim>\<open>digest.Digest\<close>, whose \<^verbatim>\<open>String\<close> method returns the string
  itself).
\<close>

definition Registry_url :: "Registry \<Rightarrow> string \<Rightarrow> string list \<Rightarrow> string" where
  "Registry_url r pathTemplate args =
     (let pathSuffix = Sprintf pathTemplate args in Sprintf ''%s%s'' [URL r, pathSuffix])"

definition GetDigestUrl :: "Registry \<Rightarrow> Image \<Rightarrow> string" where
  "GetDigestUrl r img = Registry_url r ''/v2/%s/manifests/%s'' [Path img, Tag img]"

definition GetBlobUrl :: "Registry \<Rightarrow> Image \<Rightarrow> string" where
  "GetBlobUrl r img = Registry_url r ''/v2/%s/blobs/%s'' [Path img, Image.Digest img]"

subsection \<open>Requests, responses and the outside world\<close>

record Request =
  Method :: string
  URL :: string
  Header :: Header

text \<open>
  An \<^verbatim>\<open>io.Reader\<close> is the bytes it delivers and the error that ends the stream
  (\<open>None\<close> for a clean end of file). \<^verbatim>\<open>ioutil.ReadAll\<close> returns exactly that pair.
\<close>

type_synonym reader = "bytes \<times> error option"

definition ReadAll :: "reader \<Rightarrow> bytes \<times> error option" where
  "ReadAll rd = rd"

record Response =
  StatusCode :: int
  Header :: Header
  Body :: reader

text \<open>The manifest structure decoded by \<^verbatim>\<open>Digest\<close>.\<close>

record Config =
  MediaType :: string
  Size :: int
  Digest :: string

record Layers =
  MediaType :: string
  Size :: int
  Digest :: string

record ImageDigest =
  SchemaVersion :: int
  MediaType :: string
  Config :: Config
  Layers :: "Layers list"

text \<open>The zero value \<^verbatim>\<open>&ImageDigest{}\<close>.\<close>

definition empty_ImageDigest :: ImageDigest where
  "empty_ImageDigest =
     \<lparr> SchemaVersion = 0, ImageDigest.MediaType = [],
       Config = \<lparr> Config.MediaType = [], Config.Size = 0, Config.Digest = [] \<rparr>,
       Layers = [] \<rparr>"

record authToken =
  Token :: string
  AccessToken :: string

text \<open>\<^verbatim>\<open>authService\<close>; the realm, a \<^verbatim>\<open>*url.URL\<close>, is kept as its string.\<close>

record authService =
  Realm :: string
  Service :: string
  Scope :: "string list"

text \<open>
  What the package does not compute itself is a parameter of the model:
  \<^item> \<open>url_Parse_err u\<close>: the error of \<^verbatim>\<open>http.NewRequest("GET", u, nil)\<close>, if any (the
    method is valid and the body nil, so only parsing the URL can fail);
  \<^item> \<open>Client_Do req\<close>: what \<^verbatim>\<open>r.Client.Do(req)\<close> yields, a transport error or a response;
  \<^item> \<open>gzip_NewReader rd\<close>: \<^verbatim>\<open>gzip.NewReader\<close>, which fails on a bad gzip header and
    otherwise gives the reader of the decompressed stream;
  \<^item> \<open>json_Unmarshal b v\<close>: \<^verbatim>\<open>json.Unmarshal(b, v)\<close> for an \<^verbatim>\<open>*ImageDigest\<close>: the error
    it returns, if any, and the structure as it leaves it;
  \<^item> \<open>parse_challenge\<close>, \<open>realm_request\<close> and \<open>json_Decode_authToken\<close>: used by the
    token negotiator only (see there).
\<close>

record world =
  url_Parse_err :: "string \<Rightarrow> error option"
  Client_Do :: "Request \<Rightarrow> error + Response"
  gzip_NewReader :: "reader \<Rightarrow> error + reader"
  json_Unmarshal :: "bytes \<Rightarrow> ImageDigest \<Rightarrow> error option \<times> ImageDigest"
  parse_challenge :: "string \<Rightarrow> error + authService"
  realm_request :: "authService \<Rightarrow> string \<Rightarrow> string \<Rightarrow> Request"
  json_Decode_authToken :: "reader \<Rightarrow> error + authToken"

definition NewRequest :: "world \<Rightarrow> string \<Rightarrow> string \<Rightarrow> error + Request" where
  "NewRequest w method url =
     (case url_Parse_err w url of
        Some err \<Rightarrow> Inl err
      | None \<Rightarrow> Inr \<lparr> Method = method, URL = url, Header = Map.empty \<rparr>)"

text \<open>\<^verbatim>\<open>schema2.MediaTypeManifest\<close>, the media type named by the spec.\<close>

definition MediaTypeManifest :: string where
  "MediaTypeManifest = ''application/vnd.docker.distribution.manifest.v2+json''"

subsection \<open>Decoding a response body\<close>

text \<open>
  \<^verbatim>\<open>GetRespBody\<close>. The error of \<^verbatim>\<open>gzip.NewReader\<close> is dropped by the source; the reader
  is then a nil \<^verbatim>\<open>*gzip.Reader\<close> (\<open>None\<close> below) and \<^verbatim>\<open>ioutil.ReadAll\<close> dereferences it:
  the call panics.
\<close>

definition GetRespBody :: "world \<Rightarrow> Response \<Rightarrow> (error + bytes) outcome" where
  "GetRespBody w resp =
     (let reader =
        (if Header_Get (Response.Header resp) ''Content-Encoding'' = ''gzip'' then
           (case gzip_NewReader w (Body resp) of Inl _ \<Rightarrow> None | Inr z \<Rightarrow> Some z)
         else Some (Body resp))
      in case reader of
           None \<Rightarrow> Panics
         | Some rd \<Rightarrow>
             (case ReadAll rd of
                (resBody, Some err) \<Rightarrow> Returns (Inl err)
              | (resBody, None) \<Rightarrow> Returns (Inr resBody)))"

subsection \<open>Digest and Blob\<close>

text \<open>
  Both methods return their result together with the requests handed to
  \<^verbatim>\<open>r.Client.Do\<close>, in order: the only effect they have on the outside world. Where the
  source writes \<^verbatim>\<open>respBody, _ := GetRespBody(resp)\<close> the error is dropped and the body is
  nil (the empty byte sequence) in that case.
\<close>

definition Registry_Digest ::
  "world \<Rightarrow> Registry \<Rightarrow> Image \<Rightarrow> string \<Rightarrow> (error + string) outcome \<times> Request list" where
  "Registry_Digest w r img token =
     (if length (Image.Digest img) > 1 then (Returns (Inr (Image.Digest img)), [])
      else
        let url = GetDigestUrl r img in
        case NewRequest w ''GET'' url of
          Inl err \<Rightarrow> (Returns (Inl err), [])
        | Inr req0 \<Rightarrow>
            let req = req0\<lparr> Request.Header :=
                             Header_Add (Request.Header req0) ''Accept'' MediaTypeManifest \<rparr>;
                req = (if token \<noteq> [] then
                         req\<lparr> Request.Header :=
                                Header_Set (Request.Header req) ''Authorization''
                                  (Sprintf ''Bearer %s'' [token]) \<rparr>
                       else req)
            in
            (case Client_Do w req of
               Inl err \<Rightarrow> (Returns (Inl err), [req])
             | Inr resp \<Rightarrow>
                 if StatusCode resp \<noteq> 200 \<and> StatusCode resp \<noteq> 404 then
                   (Returns (Inl (StatusCodeError (StatusCode resp))), [req])
                 else
                   (case GetRespBody w resp of
                      Panics \<Rightarrow> (Panics, [req])
                    | Returns rb \<Rightarrow>
                        let respBody = (case rb of Inl _ \<Rightarrow> [] | Inr b \<Rightarrow> b);
                            imageDigest = snd (json_Unmarshal w respBody empty_ImageDigest)
                        in (Returns (Inr (Config.Digest (Config imageDigest))), [req]))))"

definition Registry_Blob ::
  "world \<Rightarrow> Registry \<Rightarrow> Image \<Rightarrow> string \<Rightarrow> (error + bytes) outcome \<times> Request list" where
  "Registry_Blob w r img token =
     (let url = GetBlobUrl r img in
      case NewRequest w ''GET'' url of
        Inl err \<Rightarrow> (Returns (Inl err), [])
      | Inr req0 \<Rightarrow>
          let req = req0\<lparr> Request.Header :=
                           Header_Add (Request.Header req0) ''Accept'' MediaTypeManifest \<rparr>;
              req = (if token \<noteq> [] then
                       req\<lparr> Request.Header :=
                              Header_Set (Request.Header req) ''Authorization''
                                (Sprintf ''Bearer %s'' [token]) \<rparr>
                     else req)
          in
          (case Client_Do w req of
             Inl err \<Rightarrow> (Returns (Inl err), [req])
           | Inr resp \<Rightarrow>
               if StatusCode resp \<noteq> 200 \<and> StatusCode resp \<noteq> 404 then
                 (Returns (Inl (StatusCodeError (StatusCode resp))), [req])
               else
                 (case GetRespBody w resp of
                    Panics \<Rightarrow> (Panics, [req])
                  | Returns rb \<Rightarrow>
                      let respBody = (case rb of Inl _ \<Rightarrow> [] | Inr b \<Rightarrow> b)
                      in (Returns (Inr respBody), [req]))))"

subsection \<open>The token negotiator\<close>

text \<open>
  The patterns \<^verbatim>\<open>bearerRegex = ^\s*Bearer\s+(.*)$\<close> and
  \<^verbatim>\<open>basicRegex = ^\s*Basic\s+.*$\<close> of the source. In Go's syntax \<^verbatim>\<open>\s\<close> is one of tab,
  line feed, form feed, carriage return and space, \<^verbatim>\<open>.\<close> is any character but line feed,
  and \<^verbatim>\<open>^\<close>, \<^verbatim>\<open>$\<close> are the two ends of the text. A text matches when, after its leading
  white space, it continues with the scheme word, at least one white space character, and
  has no line feed after the white space that follows the word.
\<close>

definition isSpace :: "char \<Rightarrow> bool" where
  "isSpace c = (c = CHR 0x09 \<or> c = CHR 0x0A \<or> c = CHR 0x0C \<or> c = CHR 0x0D \<or> c = CHR '' '')"

definition scheme_MatchString :: "string \<Rightarrow> string \<Rightarrow> bool" where
  "scheme_MatchString scheme s =
     (let t = dropWhile isSpace s in
      prefix scheme t \<and>
      (case drop (length scheme) t of
         [] \<Rightarrow> False
       | c # u \<Rightarrow> isSpace c \<and> list_all (\<lambda>d. d \<noteq> CHR 0x0A) (dropWhile isSpace u)))"

definition bearerRegex_MatchString :: "string \<Rightarrow> bool" where
  "bearerRegex_MatchString s = scheme_MatchString ''Bearer'' s"

definition basicRegex_MatchString :: "string \<Rightarrow> bool" where
  "basicRegex_MatchString s = scheme_MatchString ''Basic'' s"

text \<open>
  Modelled from the spec: the method \<^verbatim>\<open>Token\<close> (the token negotiator) is not among the
  sources; the sources hold only what it uses: the two patterns, \<^verbatim>\<open>ErrBasicAuth\<close>,
  \<^verbatim>\<open>authToken\<close> and \<^verbatim>\<open>authService\<close>. The definition follows the algorithm of the spec:
  \<^enum> an unauthenticated GET to the target URL;
  \<^enum> on \<^verbatim>\<open>401\<close> with a \<^verbatim>\<open>WWW-Authenticate\<close> value matching the bearer pattern, the
    challenge is parsed into realm, service and scope (\<open>parse_challenge\<close>);
  \<^enum> if the value instead matches the basic pattern, the result is \<open>ErrBasicAuth\<close>;
  \<^enum> a GET to the realm with the service and scope as query and the credentials, if
    configured (\<open>realm_request\<close>, built from the challenge, the user name and the password);
  \<^enum> the JSON body is decoded into an \<^verbatim>\<open>authToken\<close> (\<open>json_Decode_authToken\<close>); the
    result is the \<^verbatim>\<open>token\<close> field when present, else the \<^verbatim>\<open>access_token\<close> field. A
    field of the Go structure is present when it is not the empty string.

  A \<^verbatim>\<open>200\<close> on the probe gives the empty token; any other status is an error, and so is
  a \<^verbatim>\<open>401\<close> whose header matches neither pattern, about which the spec is silent.
  Transport and decoding failures are returned as they are. The second component lists the
  requests issued, in order.
\<close>

definition Registry_Token ::
  "world \<Rightarrow> Registry \<Rightarrow> string \<Rightarrow> (error + string) \<times> Request list" where
  "Registry_Token w r url =
     (let probe = \<lparr> Method = ''GET'', URL = url, Header = Map.empty \<rparr> in
      case Client_Do w probe of
        Inl err \<Rightarrow> (Inl err, [probe])
      | Inr resp \<Rightarrow>
          if StatusCode resp = 200 then (Inr [], [probe])
          else if StatusCode resp = 401 then
            (let challenge = Header_Get (Response.Header resp) ''Www-Authenticate'' in
             if bearerRegex_MatchString challenge then
               (case parse_challenge w challenge of
                  Inl err \<Rightarrow> (Inl err, [probe])
                | Inr a \<Rightarrow>
                    let authReq = realm_request w a (Registry.Username r) (Registry.Password r) in
                    (case Client_Do w authReq of
                       Inl err \<Rightarrow> (Inl err, [probe, authReq])
                     | Inr resp2 \<Rightarrow>
                         (case json_Decode_authToken w (Body resp2) of
                            Inl err \<Rightarrow> (Inl err, [probe, authReq])
                          | Inr t \<Rightarrow>
                              (Inr (if Token t \<noteq> [] then Token t else AccessToken t),
                               [probe, authReq]))))
             else if basicRegex_MatchString challenge then (Inl ErrBasicAuth, [probe])
             else (Inl (StatusCodeError 401), [probe]))
          else (Inl (StatusCodeError (StatusCode resp)), [probe]))"

subsection \<open>Example inputs\<close>

text \<open>
  The image and the registry of the package's test: \<open>dockerhub\<close> is what
  \<^verbatim>\<open>CreateRegistryClient("", "", "", "docker.io")\<close> returns.
\<close>

definition alpine :: Image where
  "alpine = \<lparr> Image.Domain = ''docker.io'', Path = ''library/alpine'', Tag = ''latest'',
              Digest = [] \<rparr>"

definition dockerhub :: Registry where
  "dockerhub =
     \<lparr> Registry.URL = ''https://registry-1.docker.io'', Domain = ''registry-1.docker.io'',
       Username = [], Password = [], Client = \<lparr> http_Client.Timeout = DefaultTimeout \<rparr>,
       Opt = \<lparr> Opt.Domain = ''https://registry-1.docker.io'', Timeout = 0,
               Headers = Map.empty, UseSSL = False \<rparr> \<rparr>"

text \<open>
  The 22 bytes gzip writes for the two bytes \<^verbatim>\<open>{}\<close>, and a gzip layer that knows them:
  it decompresses these bytes, accepts their ten-byte header alone and then fails in the
  read for lack of data, and rejects every other input for its header.
\<close>

definition gzipped_braces :: bytes where
  "gzipped_braces =
     [CHR 0x1f, CHR 0x8b, CHR 0x08, CHR 0x00, CHR 0x00, CHR 0x00, CHR 0x00, CHR 0x00,
      CHR 0x02, CHR 0xff, CHR 0xab, CHR 0xae, CHR 0x05, CHR 0x00, CHR 0x43, CHR 0xbf,
      CHR 0xa6, CHR 0xa3, CHR 0x02, CHR 0x00, CHR 0x00, CHR 0x00]"

definition gzip_example :: "reader \<Rightarrow> error + reader" where
  "gzip_example rd =
     (if rd = (gzipped_braces, None) then Inr (''{}'', None)
      else if rd = (take 10 gzipped_braces, None) then
        Inr ([], Some (ReadError ''unexpected EOF''))
      else Inl (GzipError ''gzip: invalid header''))"

text \<open>
  A manifest body, and a decoder that agrees with \<^verbatim>\<open>json.Unmarshal\<close> on the bodies
  used below: it stores the digest of that manifest, accepts the empty object, and on the
  others, none of which is JSON, reports an error and leaves the structure as it was.
\<close>

definition manifest_body :: bytes where
  \<open>manifest_body = ''{"config":{"digest":"sha256:0123"}}''\<close>

definition decoder_example :: "bytes \<Rightarrow> ImageDigest \<Rightarrow> error option \<times> ImageDigest" where
  "decoder_example b v =
     (if b = manifest_body then
        (None, v\<lparr> Config := (Config v)\<lparr> Config.Digest := ''sha256:0123'' \<rparr> \<rparr>)
      else if b = ''{}'' then (None, v)
      else (Some (JsonError ''invalid character''), v))"

text \<open>A bearer challenge, the token request it leads to, and a token body.\<close>

definition bearer_challenge :: string where
  \<open>bearer_challenge =
     ''Bearer realm="https://auth.docker.io/token",service="registry.docker.io",scope="repository:library/alpine:pull"''\<close>

definition token_url :: string where
  "token_url =
     ''https://auth.docker.io/token?service=registry.docker.io&scope=repository:library/alpine:pull''"

definition token_body :: bytes where
  \<open>token_body = ''{"token":"abc","access_token":"xyz"}''\<close>

text \<open>
  A world in which every URL parses and the library parts behave as above; the network
  is the parameter.
\<close>

definition example_world :: "(Request \<Rightarrow> error + Response) \<Rightarrow> world" where
  "example_world net =
     \<lparr> url_Parse_err = (\<lambda>_. None),
       Client_Do = net,
       gzip_NewReader = gzip_example,
       json_Unmarshal = decoder_example,
       parse_challenge =
         (\<lambda>h. if h = bearer_challenge then
                Inr \<lparr> Realm = ''https://auth.docker.io/token'', Service = ''registry.docker.io'',
                      Scope = [''repository:library/alpine:pull''] \<rparr>
              else Inl (UrlError ''malformed challenge'')),
       realm_request = (\<lambda>a u p. \<lparr> Method = ''GET'', URL = token_url, Header = Map.empty \<rparr>),
       json_Decode_authToken =
         (\<lambda>rd. if rd = (token_body, None) then Inr \<lparr> Token = ''abc'', AccessToken = ''xyz'' \<rparr>
               else Inl (JsonError ''invalid character'')) \<rparr>"

text \<open>A network that gives the same response to every request.\<close>

definition answering :: "Response \<Rightarrow> world" where
  "answering resp = example_world (\<lambda>_. Inr resp)"

text \<open>
  A registry that challenges every request with basic authentication, and one that asks
  for a bearer token and whose token endpoint answers with \<open>token_body\<close>.
\<close>

definition basic_registry :: world where
  \<open>basic_registry =
     answering \<lparr> StatusCode = 401,
                 Header = [''Www-Authenticate'' \<mapsto> [''Basic realm="Registry Realm"'']],
                 Body = ([], None) \<rparr>\<close>

definition bearer_registry :: world where
  "bearer_registry =
     example_world (\<lambda>req.
       if Request.URL req = token_url then
         Inr \<lparr> StatusCode = 200, Header = Map.empty, Body = (token_body, None) \<rparr>
       else
         Inr \<lparr> StatusCode = 401, Header = [''Www-Authenticate'' \<mapsto> [bearer_challenge]],
               Body = ([], None) \<rparr>)"

text \<open>A world without network: every request fails in the transport.\<close>

definition offline :: world where
  "offline = example_world (\<lambda>_. Inl (TransportError ''offline''))"

section \<open>Properties\<close>

subsection \<open>Formatting and prefixes\<close>

lemma Sprintf_manifests:
  "Sprintf ''/v2/%s/manifests/%s'' [p, t] = ''/v2/'' @ p @ ''/manifests/'' @ t"
  by simp

lemma Sprintf_blobs:
  "Sprintf ''/v2/%s/blobs/%s'' [p, d] = ''/v2/'' @ p @ ''/blobs/'' @ d"
  by simp

lemma Sprintf_concat: "Sprintf ''%s%s'' [a, b] = a @ b"
  by simp

lemma Sprintf_Bearer: "Sprintf ''Bearer %s'' [token] = ''Bearer '' @ token"
  by simp



lemma TrimSuffix_default: "TrimSuffix DefaultDockerRegistry ''/'' = DefaultDockerRegistry"
  by (simp add: TrimSuffix_def DefaultDockerRegistry_def suffix_to_prefix)

lemma reProtocol_default: "reProtocol_MatchString DefaultDockerRegistry"
  by (simp add: reProtocol_MatchString_def DefaultDockerRegistry_def)

subsection \<open>URL builders\<close>

lemma GetDigestUrl_eq:
  "GetDigestUrl r img = Registry.URL r @ ''/v2/'' @ Path img @ ''/manifests/'' @ Tag img"
  unfolding GetDigestUrl_def Registry_url_def Let_def Sprintf_manifests Sprintf_concat
  by simp

lemma GetBlobUrl_eq:
  "GetBlobUrl r img = Registry.URL r @ ''/v2/'' @ Path img @ ''/blobs/'' @ Image.Digest img"
  unfolding GetBlobUrl_def Registry_url_def Let_def Sprintf_blobs Sprintf_concat
  by simp

text \<open>
  C5. \<^verbatim>\<open>GetDigestUrl\<close> and \<^verbatim>\<open>GetBlobUrl\<close> are functions of the registry and the image
  alone: the first is the registry's URL followed by \<^verbatim>\<open>/v2/\<close>, the image's path,
  \<^verbatim>\<open>/manifests/\<close> and the tag; the second is the URL followed by \<^verbatim>\<open>/v2/\<close>, the path,
  \<^verbatim>\<open>/blobs/\<close> and the digest. Neither reads or writes anything else, so equal inputs give
  equal outputs.
\<close>

theorem url_builders:
  "GetDigestUrl r img = Registry.URL r @ ''/v2/'' @ Path img @ ''/manifests/'' @ Tag img
   \<and> GetBlobUrl r img = Registry.URL r @ ''/v2/'' @ Path img @ ''/blobs/'' @ Image.Digest img"
  using GetDigestUrl_eq GetBlobUrl_eq by simp

subsection \<open>Registry construction\<close>

lemma GetAuthConfig_Inr:
  "\<exists>auth. GetAuthConfig username password registry = Inr auth
          \<and> ServerAddress auth = setDefaultRegistry registry"
  by (simp add: GetAuthConfig_def Let_def)

lemma newFromTransport_Inr: "\<exists>r. newFromTransport auth transport opt = Inr r"
  by (simp add: newFromTransport_def Let_def)

lemma New_Inr: "\<exists>r. New auth opt = Inr r"
  by (simp add: New_def newFromTransport_Inr)

lemma CreateRegistryClient_Inr:
  "\<exists>r. CreateRegistryClient authURL username password domain = Inr r"
proof -
  obtain auth where
    "GetAuthConfig username password (if authURL = [] then domain else authURL) = Inr auth"
    using GetAuthConfig_Inr by blast
  then show ?thesis
    using New_Inr by (simp add: CreateRegistryClient_def)
qed


text \<open>
  C10. Construction is total: \<^verbatim>\<open>GetAuthConfig\<close>, \<^verbatim>\<open>newFromTransport\<close> and \<^verbatim>\<open>New\<close>
  return a nil error on every input, and so \<^verbatim>\<open>CreateRegistryClient\<close> returns a registry
  and a nil error for every auth URL, user name, password and domain.
\<close>

theorem construction_total:
  "(\<exists>auth. GetAuthConfig username password registry = Inr auth)
   \<and> (\<exists>r. newFromTransport auth transport opt = Inr r)
   \<and> (\<exists>r. New auth opt = Inr r)
   \<and> (\<exists>r. CreateRegistryClient authURL username password domain = Inr r)"
  using GetAuthConfig_Inr [of username password registry]
    newFromTransport_Inr [of auth transport opt] New_Inr [of auth opt]
    CreateRegistryClient_Inr [of authURL username password domain]
  by blast





subsection \<open>What Digest and Blob send and return\<close>

text \<open>
  Past the cache check and the parsing of the URL, each method builds one request, hands it
  to the client and decides on the response.
\<close>

lemma Digest_unfold:
  "\<not> length (Image.Digest img) > 1 \<Longrightarrow> url_Parse_err w (GetDigestUrl r img) = None \<Longrightarrow>
   Registry_Digest w r img token =
     (let req = \<lparr> Method = ''GET'', URL = GetDigestUrl r img,
                   Header = (if token \<noteq> [] then
                               [''Accept'' \<mapsto> [MediaTypeManifest],
                                ''Authorization'' \<mapsto> [''Bearer '' @ token]]
                             else [''Accept'' \<mapsto> [MediaTypeManifest]]) \<rparr>
      in case Client_Do w req of
           Inl err \<Rightarrow> (Returns (Inl err), [req])
         | Inr resp \<Rightarrow>
             if StatusCode resp \<noteq> 200 \<and> StatusCode resp \<noteq> 404 then
               (Returns (Inl (StatusCodeError (StatusCode resp))), [req])
             else
               (case GetRespBody w resp of
                  Panics \<Rightarrow> (Panics, [req])
                | Returns rb \<Rightarrow>
                    (Returns (Inr (Config.Digest (Config (snd (json_Unmarshal w
                       (case rb of Inl _ \<Rightarrow> [] | Inr b \<Rightarrow> b) empty_ImageDigest))))), [req])))"
  unfolding Registry_Digest_def NewRequest_def Sprintf_Bearer Let_def
  by (simp add: Header_Add_def Header_Set_def cong: if_cong sum.case_cong outcome.case_cong)

lemma Blob_unfold:
  "url_Parse_err w (GetBlobUrl r img) = None \<Longrightarrow>
   Registry_Blob w r img token =
     (let req = \<lparr> Method = ''GET'', URL = GetBlobUrl r img,
                   Header = (if token \<noteq> [] then
                               [''Accept'' \<mapsto> [MediaTypeManifest],
                                ''Authorization'' \<mapsto> [''Bearer '' @ token]]
                             else [''Accept'' \<mapsto> [MediaTypeManifest]]) \<rparr>
      in case Client_Do w req of
           Inl err \<Rightarrow> (Returns (Inl err), [req])
         | Inr resp \<Rightarrow>
             if StatusCode resp \<noteq> 200 \<and> StatusCode resp \<noteq> 404 then
               (Returns (Inl (StatusCodeError (StatusCode resp))), [req])
             else
               (case GetRespBody w resp of
                  Panics \<Rightarrow> (Panics, [req])
                | Returns rb \<Rightarrow>
                    (Returns (Inr (case rb of Inl _ \<Rightarrow> [] | Inr b \<Rightarrow> b)), [req])))"
  unfolding Registry_Blob_def NewRequest_def Sprintf_Bearer Let_def
  by (simp add: Header_Add_def Header_Set_def cong: if_cong sum.case_cong outcome.case_cong)

text \<open>A request is sent only when the digest is not taken from the image and the URL parses.\<close>

lemma Digest_sent:
  "snd (Registry_Digest w r img token) \<noteq> [] \<Longrightarrow>
   \<not> length (Image.Digest img) > 1 \<and> url_Parse_err w (GetDigestUrl r img) = None"
  unfolding Registry_Digest_def NewRequest_def
  by (auto simp add: Let_def split: if_splits option.splits)

lemma Blob_sent:
  "snd (Registry_Blob w r img token) \<noteq> [] \<Longrightarrow> url_Parse_err w (GetBlobUrl r img) = None"
  unfolding Registry_Blob_def NewRequest_def
  by (auto simp add: Let_def split: if_splits option.splits)

text \<open>The request sent, which is the only one.\<close>

lemma Digest_request:
  assumes "\<not> length (Image.Digest img) > 1" and "url_Parse_err w (GetDigestUrl r img) = None"
  shows "snd (Registry_Digest w r img token) =
     [\<lparr> Method = ''GET'', URL = GetDigestUrl r img,
        Header = (if token \<noteq> [] then
                    [''Accept'' \<mapsto> [MediaTypeManifest],
                     ''Authorization'' \<mapsto> [''Bearer '' @ token]]
                  else [''Accept'' \<mapsto> [MediaTypeManifest]]) \<rparr>]"
  unfolding Digest_unfold [OF assms] Let_def
  by (simp split: sum.split outcome.split)

lemma Blob_request:
  assumes "url_Parse_err w (GetBlobUrl r img) = None"
  shows "snd (Registry_Blob w r img token) =
     [\<lparr> Method = ''GET'', URL = GetBlobUrl r img,
        Header = (if token \<noteq> [] then
                    [''Accept'' \<mapsto> [MediaTypeManifest],
                     ''Authorization'' \<mapsto> [''Bearer '' @ token]]
                  else [''Accept'' \<mapsto> [MediaTypeManifest]]) \<rparr>]"
  unfolding Blob_unfold [OF assms] Let_def
  by (simp split: sum.split outcome.split)

text \<open>The result, once the client has answered the request with a response.\<close>

lemma Digest_after_response:
  assumes "snd (Registry_Digest w r img token) = [req]" and "Client_Do w req = Inr resp"
  shows "fst (Registry_Digest w r img token) =
     (if StatusCode resp \<noteq> 200 \<and> StatusCode resp \<noteq> 404 then
        Returns (Inl (StatusCodeError (StatusCode resp)))
      else case GetRespBody w resp of
             Panics \<Rightarrow> Panics
           | Returns rb \<Rightarrow>
               Returns (Inr (Config.Digest (Config (snd (json_Unmarshal w
                 (case rb of Inl _ \<Rightarrow> [] | Inr b \<Rightarrow> b) empty_ImageDigest))))))"
proof -
  have c: "\<not> length (Image.Digest img) > 1" and p: "url_Parse_err w (GetDigestUrl r img) = None"
    using assms(1) Digest_sent [of w r img token] by auto
  from Digest_request [OF c p, of token] assms(1)
  have req: "req = \<lparr> Method = ''GET'', URL = GetDigestUrl r img,
        Header = (if token \<noteq> [] then
                    [''Accept'' \<mapsto> [MediaTypeManifest],
                     ''Authorization'' \<mapsto> [''Bearer '' @ token]]
                  else [''Accept'' \<mapsto> [MediaTypeManifest]]) \<rparr>"
    by simp
  show ?thesis
    using assms(2) unfolding req Digest_unfold [OF c p] Let_def
    by (simp split: outcome.split)
qed


text \<open>
  \<^verbatim>\<open>GetRespBody\<close> panics exactly when the response is declared gzip and
  \<^verbatim>\<open>gzip.NewReader\<close> rejects its body.
\<close>

lemma GetRespBody_Panics_iff:
  "GetRespBody w resp = Panics \<longleftrightarrow>
   Header_Get (Response.Header resp) ''Content-Encoding'' = ''gzip''
   \<and> (\<exists>e. gzip_NewReader w (Body resp) = Inl e)"
  unfolding GetRespBody_def Let_def ReadAll_def
  by (auto split: sum.splits option.splits prod.splits)

text \<open>The manifest URL of the example image, whatever its cached digest.\<close>

lemma dockerhub_alpine_url:
  "GetDigestUrl dockerhub (alpine\<lparr> Image.Digest := d \<rparr>)
   = ''https://registry-1.docker.io/v2/library/alpine/manifests/latest''"
  by (simp add: GetDigestUrl_eq dockerhub_def alpine_def)

subsection \<open>The example world\<close>

lemma answering_simps:
  "url_Parse_err (answering resp) = (\<lambda>_. None)"
  "Client_Do (answering resp) = (\<lambda>_. Inr resp)"
  "gzip_NewReader (answering resp) = gzip_example"
  "json_Unmarshal (answering resp) = decoder_example"
  by (simp_all add: answering_def example_world_def)

text \<open>\<open>dockerhub\<close> is the client the package's test creates.\<close>

lemma dockerhub_created: "CreateRegistryClient [] [] [] ''docker.io'' = Inr dockerhub"
  by (simp add: CreateRegistryClient_def GetAuthConfig_def setDefaultRegistry_def New_def
        newFromTransport_def TrimSuffix_default reProtocol_default dockerhub_def Let_def
        reProtocol_ReplaceAllString_def DefaultDockerRegistry_def TrimSuffix_def
        suffix_to_prefix reProtocol_MatchString_def)

lemma alpine_short: "Image.Digest alpine = []"
  by (simp add: alpine_def)

lemma alpine_upd: "alpine\<lparr> Image.Digest := [] \<rparr> = alpine"
  by (simp add: alpine_def)

lemma dockerhub_alpine_url0:
  "GetDigestUrl dockerhub alpine
   = ''https://registry-1.docker.io/v2/library/alpine/manifests/latest''"
  using dockerhub_alpine_url [of "[]"] by (simp add: alpine_upd)

text \<open>\<^verbatim>\<open>GetRespBody\<close> on a plain and on a gzip response.\<close>

lemma GetRespBody_plain:
  "Header_Get (Response.Header resp) ''Content-Encoding'' \<noteq> ''gzip'' \<Longrightarrow>
   GetRespBody w resp = (case Body resp of (b, Some err) \<Rightarrow> Returns (Inl err) | (b, None) \<Rightarrow> Returns (Inr b))"
  by (simp add: GetRespBody_def ReadAll_def)

lemma GetRespBody_gzip:
  "Header_Get (Response.Header resp) ''Content-Encoding'' = ''gzip'' \<Longrightarrow>
   GetRespBody w resp =
     (case gzip_NewReader w (Body resp) of
        Inl _ \<Rightarrow> Panics
      | Inr (b, Some err) \<Rightarrow> Returns (Inl err)
      | Inr (b, None) \<Rightarrow> Returns (Inr b))"
  by (simp add: GetRespBody_def ReadAll_def split: sum.split)

subsection \<open>The cached digest\<close>

text \<open>A digest of two bytes or more is returned as it is, and nothing is sent.\<close>

lemma Digest_cached:
  "length (Image.Digest img) > 1 \<Longrightarrow>
   Registry_Digest w r img token = (Returns (Inr (Image.Digest img)), [])"
  by (simp add: Registry_Digest_def)

text \<open>
  C1. An image whose digest is not empty is to be answered from the image: \<^verbatim>\<open>Digest\<close>
  returns that digest unchanged, with no error and without a request. The source tests
  \<^verbatim>\<open>len(image.Digest) > 1\<close>, under a comment that says to return early if the image
  already has a digest, so an image whose digest is the single byte \<^verbatim>\<open>a\<close> is not
  answered from the image: the method sends the manifest request and returns the digest
  found in the response, here \<^verbatim>\<open>sha256:0123\<close>.
\<close>

theorem Digest_one_byte_digest:
  "Registry_Digest
     (answering \<lparr> StatusCode = 200, Header = Map.empty, Body = (manifest_body, None) \<rparr>)
     dockerhub (alpine\<lparr> Image.Digest := ''a'' \<rparr>) []
   = (Returns (Inr ''sha256:0123''),
      [\<lparr> Method = ''GET'',
         URL = ''https://registry-1.docker.io/v2/library/alpine/manifests/latest'',
         Header = [''Accept'' \<mapsto> [MediaTypeManifest]] \<rparr>])"
  by (simp add: Digest_unfold alpine_short answering_simps dockerhub_alpine_url
        GetRespBody_plain Header_Get_def decoder_example_def empty_ImageDigest_def)

subsection \<open>Status codes\<close>



subsection \<open>Decoding failures\<close>

text \<open>
  The error of the decoder is dropped on every accepted response, \<^verbatim>\<open>200\<close> or \<^verbatim>\<open>404\<close>:
  the result is a nil error and the \<^verbatim>\<open>config.digest\<close> of the structure as the decoder
  left it.
\<close>

lemma Digest_drops_decode_error:
  assumes "snd (Registry_Digest w r img token) = [req]"
    and "Client_Do w req = Inr resp"
    and "StatusCode resp = 200 \<or> StatusCode resp = 404"
    and "GetRespBody w resp = Returns rb"
    and "json_Unmarshal w (case rb of Inl _ \<Rightarrow> [] | Inr b \<Rightarrow> b) empty_ImageDigest = (e, v)"
  shows "fst (Registry_Digest w r img token) = Returns (Inr (Config.Digest (Config v)))"
  unfolding Digest_after_response [OF assms(1,2)]
  using assms(3,4,5) by auto

text \<open>
  C3. A response body that is not valid JSON for the manifest structure is to make
  \<^verbatim>\<open>Digest\<close> return the decoding failure as its error. The source calls
  \<^verbatim>\<open>json.Unmarshal(respBody, imageDigest)\<close> and does not read its result, where the other
  calls of \<^verbatim>\<open>json.Unmarshal\<close> in the repository test it. On a \<^verbatim>\<open>200\<close> response whose
  body is an HTML page the decoder reports an error and leaves the structure untouched,
  and \<^verbatim>\<open>Digest\<close> returns the empty digest with a nil error.
\<close>

theorem Digest_undecodable_body:
  "json_Unmarshal
     (answering \<lparr> StatusCode = 200, Header = Map.empty, Body = (''<html>'', None) \<rparr>)
     ''<html>'' empty_ImageDigest
   = (Some (JsonError ''invalid character''), empty_ImageDigest)
   \<and> Registry_Digest
       (answering \<lparr> StatusCode = 200, Header = Map.empty, Body = (''<html>'', None) \<rparr>)
       dockerhub alpine []
     = (Returns (Inr []),
        [\<lparr> Method = ''GET'',
           URL = ''https://registry-1.docker.io/v2/library/alpine/manifests/latest'',
           Header = [''Accept'' \<mapsto> [MediaTypeManifest]] \<rparr>])"
  by (simp add: Digest_unfold alpine_short answering_simps dockerhub_alpine_url0
        GetRespBody_plain Header_Get_def decoder_example_def empty_ImageDigest_def manifest_body_def)

subsection \<open>The Authorization header\<close>

text \<open>
  C6. \<^verbatim>\<open>Digest\<close>, when it does not answer from the image, and \<^verbatim>\<open>Blob\<close> build one
  request for every image and token whose URL parses, and hand it to the client: a GET of
  the manifest or blob URL with the \<^verbatim>\<open>Accept\<close> header and, when the token is not empty,
  the \<^verbatim>\<open>Authorization\<close> header set to exactly \<^verbatim>\<open>Bearer\<close>, a space and the token; when
  the token is empty the request has no \<^verbatim>\<open>Authorization\<close> header. No other request is
  handed to the client, so every request of either method has that header or lacks it
  according to the token.
\<close>

theorem authorization_header:
  "(\<forall>req \<in> set (snd (Registry_Digest w r img token)).
      Request.Header req ''Authorization''
      = (if token = [] then None else Some [''Bearer '' @ token]))
   \<and> (\<forall>req \<in> set (snd (Registry_Blob w r img token)).
      Request.Header req ''Authorization''
      = (if token = [] then None else Some [''Bearer '' @ token]))
   \<and> (\<not> length (Image.Digest img) > 1 \<and> url_Parse_err w (GetDigestUrl r img) = None \<longrightarrow>
        (\<exists>req. snd (Registry_Digest w r img token) = [req]
           \<and> Request.Method req = ''GET'' \<and> Request.URL req = GetDigestUrl r img
           \<and> Request.Header req ''Accept'' = Some [MediaTypeManifest]
           \<and> Request.Header req ''Authorization''
               = (if token = [] then None else Some [''Bearer '' @ token])))
   \<and> (url_Parse_err w (GetBlobUrl r img) = None \<longrightarrow>
        (\<exists>req. snd (Registry_Blob w r img token) = [req]
           \<and> Request.Method req = ''GET'' \<and> Request.URL req = GetBlobUrl r img
           \<and> Request.Header req ''Accept'' = Some [MediaTypeManifest]
           \<and> Request.Header req ''Authorization''
               = (if token = [] then None else Some [''Bearer '' @ token])))"
proof (intro conjI ballI impI)
  fix req assume "req \<in> set (snd (Registry_Digest w r img token))"
  then have ne: "snd (Registry_Digest w r img token) \<noteq> []" by auto
  from Digest_sent [OF ne] have "snd (Registry_Digest w r img token) =
     [\<lparr> Method = ''GET'', URL = GetDigestUrl r img,
        Header = (if token \<noteq> [] then
                    [''Accept'' \<mapsto> [MediaTypeManifest],
                     ''Authorization'' \<mapsto> [''Bearer '' @ token]]
                  else [''Accept'' \<mapsto> [MediaTypeManifest]]) \<rparr>]"
    using Digest_request by blast
  with \<open>req \<in> set (snd (Registry_Digest w r img token))\<close>
  show "Request.Header req ''Authorization''
      = (if token = [] then None else Some [''Bearer '' @ token])"
    by simp
next
  fix req assume "req \<in> set (snd (Registry_Blob w r img token))"
  then have ne: "snd (Registry_Blob w r img token) \<noteq> []" by auto
  from Blob_sent [OF ne] have "snd (Registry_Blob w r img token) =
     [\<lparr> Method = ''GET'', URL = GetBlobUrl r img,
        Header = (if token \<noteq> [] then
                    [''Accept'' \<mapsto> [MediaTypeManifest],
                     ''Authorization'' \<mapsto> [''Bearer '' @ token]]
                  else [''Accept'' \<mapsto> [MediaTypeManifest]]) \<rparr>]"
    using Blob_request by blast
  with \<open>req \<in> set (snd (Registry_Blob w r img token))\<close>
  show "Request.Header req ''Authorization''
      = (if token = [] then None else Some [''Bearer '' @ token])"
    by simp
next
  assume h: "\<not> length (Image.Digest img) > 1 \<and> url_Parse_err w (GetDigestUrl r img) = None"
  then have "snd (Registry_Digest w r img token) =
     [\<lparr> Method = ''GET'', URL = GetDigestUrl r img,
        Header = (if token \<noteq> [] then
                    [''Accept'' \<mapsto> [MediaTypeManifest],
                     ''Authorization'' \<mapsto> [''Bearer '' @ token]]
                  else [''Accept'' \<mapsto> [MediaTypeManifest]]) \<rparr>]"
    using Digest_request by blast
  then show "\<exists>req. snd (Registry_Digest w r img token) = [req]
           \<and> Request.Method req = ''GET'' \<and> Request.URL req = GetDigestUrl r img
           \<and> Request.Header req ''Accept'' = Some [MediaTypeManifest]
           \<and> Request.Header req ''Authorization''
               = (if token = [] then None else Some [''Bearer '' @ token])"
    by simp
next
  assume h: "url_Parse_err w (GetBlobUrl r img) = None"
  then have "snd (Registry_Blob w r img token) =
     [\<lparr> Method = ''GET'', URL = GetBlobUrl r img,
        Header = (if token \<noteq> [] then
                    [''Accept'' \<mapsto> [MediaTypeManifest],
                     ''Authorization'' \<mapsto> [''Bearer '' @ token]]
                  else [''Accept'' \<mapsto> [MediaTypeManifest]]) \<rparr>]"
    using Blob_request by blast
  then show "\<exists>req. snd (Registry_Blob w r img token) = [req]
           \<and> Request.Method req = ''GET'' \<and> Request.URL req = GetBlobUrl r img
           \<and> Request.Header req ''Accept'' = Some [MediaTypeManifest]
           \<and> Request.Header req ''Authorization''
               = (if token = [] then None else Some [''Bearer '' @ token])"
    by simp
qed

subsection \<open>Response bodies\<close>

text \<open>
  A body whose read fails is not returned: \<^verbatim>\<open>GetRespBody\<close> returns the error of
  \<^verbatim>\<open>ioutil.ReadAll\<close> and no bytes.
\<close>

theorem GetRespBody_read_error:
  "GetRespBody offline
     \<lparr> StatusCode = 200, Header = Map.empty,
       Body = (''{'', Some (ReadError ''unexpected EOF'')) \<rparr>
   = Returns (Inl (ReadError ''unexpected EOF''))"
  by (simp add: GetRespBody_plain Header_Get_def)

text \<open>
  C7, as amended. When the \<^verbatim>\<open>Content-Encoding\<close> header is \<^verbatim>\<open>gzip\<close> and the gzip reader
  delivers the bytes \<open>x\<close> for the body without error, \<^verbatim>\<open>GetRespBody\<close> returns \<open>x\<close>;
  when the header is anything else and the body is read without error, it returns the
  bytes of the body unchanged; a read that ends in an error returns that error instead
  of bytes, on either path. So a gzip response whose body decompresses to the body of a
  plain response gives the same result as that plain response: with a gzip layer for
  which decompressing the compressed form of \<open>x\<close> gives \<open>x\<close>, both give \<open>x\<close>.
\<close>

theorem GetRespBody_decodes:
  "(Header_Get (Response.Header resp) ''Content-Encoding'' = ''gzip''
      \<and> gzip_NewReader w (Body resp) = Inr (x, None)
      \<longrightarrow> GetRespBody w resp = Returns (Inr x))
   \<and> (Header_Get (Response.Header resp) ''Content-Encoding'' \<noteq> ''gzip''
      \<and> Body resp = (x, None)
      \<longrightarrow> GetRespBody w resp = Returns (Inr x))
   \<and> (Header_Get (Response.Header resp) ''Content-Encoding'' = ''gzip''
      \<and> gzip_NewReader w (Body resp) = Inr (x, Some err)
      \<longrightarrow> GetRespBody w resp = Returns (Inl err))
   \<and> (Header_Get (Response.Header resp) ''Content-Encoding'' \<noteq> ''gzip''
      \<and> Body resp = (x, Some err)
      \<longrightarrow> GetRespBody w resp = Returns (Inl err))
   \<and> (Header_Get (Response.Header resp) ''Content-Encoding'' = ''gzip''
      \<and> Header_Get (Response.Header resp') ''Content-Encoding'' \<noteq> ''gzip''
      \<and> gzip_NewReader w (Body resp) = Inr (Body resp')
      \<longrightarrow> GetRespBody w resp = GetRespBody w resp')"
  by (auto simp add: GetRespBody_plain GetRespBody_gzip split: prod.splits option.splits)

subsection \<open>The token negotiator\<close>

text \<open>
  The matcher against the patterns read as regular expressions: optional white space, the
  scheme word, white space, and a rest without line feed.
\<close>

lemma dropWhile_spaces_append:
  "list_all isSpace w \<Longrightarrow> dropWhile isSpace (w @ ys) = dropWhile isSpace ys"
  by (induction w) auto

lemma scheme_MatchString_iff:
  assumes "scheme \<noteq> []" and "\<not> isSpace (hd scheme)"
  shows "scheme_MatchString scheme s \<longleftrightarrow>
         (\<exists>w1 w2 rest. s = w1 @ scheme @ w2 @ rest \<and> list_all isSpace w1
            \<and> w2 \<noteq> [] \<and> list_all isSpace w2 \<and> CHR 0x0A \<notin> set rest)"
proof
  assume m: "scheme_MatchString scheme s"
  let ?t = "dropWhile isSpace s"
  from m obtain c u where p: "prefix scheme ?t" and d: "drop (length scheme) ?t = c # u"
    and c: "isSpace c" and r: "list_all (\<lambda>d. d \<noteq> CHR 0x0A) (dropWhile isSpace u)"
    unfolding scheme_MatchString_def Let_def by (auto split: list.splits)
  from p d have t: "?t = scheme @ c # u"
    by (metis append_eq_conv_conj prefix_def)
  have "s = takeWhile isSpace s @ scheme @ (c # takeWhile isSpace u) @ dropWhile isSpace u"
    using t by (metis append_Cons append_assoc takeWhile_dropWhile_id)
  moreover have "list_all isSpace (takeWhile isSpace s)"
    by (simp add: list_all_iff) (meson set_takeWhileD)
  moreover have "list_all isSpace (c # takeWhile isSpace u)"
    using c by (simp add: list_all_iff) (meson set_takeWhileD)
  moreover have "CHR 0x0A \<notin> set (dropWhile isSpace u)"
    using r by (auto simp add: list_all_iff)
  ultimately show "\<exists>w1 w2 rest. s = w1 @ scheme @ w2 @ rest \<and> list_all isSpace w1
            \<and> w2 \<noteq> [] \<and> list_all isSpace w2 \<and> CHR 0x0A \<notin> set rest"
    by blast
next
  assume "\<exists>w1 w2 rest. s = w1 @ scheme @ w2 @ rest \<and> list_all isSpace w1
            \<and> w2 \<noteq> [] \<and> list_all isSpace w2 \<and> CHR 0x0A \<notin> set rest"
  then obtain w1 w2 rest where s: "s = w1 @ scheme @ w2 @ rest" and w1: "list_all isSpace w1"
    and ne: "w2 \<noteq> []" and w2: "list_all isSpace w2" and r: "CHR 0x0A \<notin> set rest"
    by blast
  from assms have "dropWhile isSpace (scheme @ w2 @ rest) = scheme @ w2 @ rest"
    by (cases scheme) auto
  then have t: "dropWhile isSpace s = scheme @ w2 @ rest"
    using s w1 dropWhile_spaces_append by simp
  from ne obtain c w where cw: "w2 = c # w" by (cases w2) auto
  have "set (dropWhile isSpace (w @ rest)) \<subseteq> set rest"
    using w2 cw dropWhile_spaces_append [of w rest] by (simp add: set_dropWhileD subsetI)
  then have "list_all (\<lambda>d. d \<noteq> CHR 0x0A) (dropWhile isSpace (w @ rest))"
    using r by (auto simp add: list_all_iff)
  then show "scheme_MatchString scheme s"
    unfolding scheme_MatchString_def Let_def t using cw w2 by simp
qed

lemma basicRegex_MatchString_iff:
  "basicRegex_MatchString s \<longleftrightarrow>
     (\<exists>w1 w2 rest. s = w1 @ ''Basic'' @ w2 @ rest \<and> list_all isSpace w1
        \<and> w2 \<noteq> [] \<and> list_all isSpace w2 \<and> CHR 0x0A \<notin> set rest)"
  unfolding basicRegex_MatchString_def
  by (rule scheme_MatchString_iff) (simp_all add: isSpace_def)

lemma bearerRegex_MatchString_iff:
  "bearerRegex_MatchString s \<longleftrightarrow>
     (\<exists>w1 w2 rest. s = w1 @ ''Bearer'' @ w2 @ rest \<and> list_all isSpace w1
        \<and> w2 \<noteq> [] \<and> list_all isSpace w2 \<and> CHR 0x0A \<notin> set rest)"
  unfolding bearerRegex_MatchString_def
  by (rule scheme_MatchString_iff) (simp_all add: isSpace_def)

text \<open>No header value matches both patterns.\<close>

lemma scheme_exclusive:
  "scheme_MatchString ''Basic'' s \<Longrightarrow> \<not> scheme_MatchString ''Bearer'' s"
  unfolding scheme_MatchString_def Let_def
  by (auto simp add: prefix_def)

lemma Token_unfold:
  "Client_Do w \<lparr> Method = ''GET'', URL = url, Header = Map.empty \<rparr> = Inr resp \<Longrightarrow>
   Registry_Token w r url =
     (let probe = \<lparr> Method = ''GET'', URL = url, Header = Map.empty \<rparr> in
      if StatusCode resp = 200 then (Inr [], [probe])
      else if StatusCode resp = 401 then
        (let challenge = Header_Get (Response.Header resp) ''Www-Authenticate'' in
         if bearerRegex_MatchString challenge then
           (case parse_challenge w challenge of
              Inl err \<Rightarrow> (Inl err, [probe])
            | Inr a \<Rightarrow>
                let authReq = realm_request w a (Registry.Username r) (Registry.Password r) in
                (case Client_Do w authReq of
                   Inl err \<Rightarrow> (Inl err, [probe, authReq])
                 | Inr resp2 \<Rightarrow>
                     (case json_Decode_authToken w (Body resp2) of
                        Inl err \<Rightarrow> (Inl err, [probe, authReq])
                      | Inr t \<Rightarrow>
                          (Inr (if Token t \<noteq> [] then Token t else AccessToken t),
                           [probe, authReq]))))
         else if basicRegex_MatchString challenge then (Inl ErrBasicAuth, [probe])
         else (Inl (StatusCodeError 401), [probe]))
      else (Inl (StatusCodeError (StatusCode resp)), [probe]))"
  by (simp add: Registry_Token_def)

text \<open>
  C8. When the unauthenticated GET of the probe URL is answered \<^verbatim>\<open>401\<close> with a
  \<^verbatim>\<open>WWW-Authenticate\<close> value that matches the basic pattern, the negotiator returns
  \<open>ErrBasicAuth\<close>, and the probe is the only request it has issued.
\<close>

theorem basic_challenge_fails_fast:
  assumes "Client_Do w \<lparr> Method = ''GET'', URL = url, Header = Map.empty \<rparr> = Inr resp"
    and "StatusCode resp = 401"
    and "basicRegex_MatchString (Header_Get (Response.Header resp) ''Www-Authenticate'')"
  shows "Registry_Token w r url
         = (Inl ErrBasicAuth, [\<lparr> Method = ''GET'', URL = url, Header = Map.empty \<rparr>])"
proof -
  have "\<not> bearerRegex_MatchString (Header_Get (Response.Header resp) ''Www-Authenticate'')"
    using assms(3) scheme_exclusive
    by (simp add: basicRegex_MatchString_def bearerRegex_MatchString_def)
  then show ?thesis
    unfolding Token_unfold [OF assms(1)] using assms(2,3) by (simp add: Let_def)
qed

text \<open>
  C9. When the bearer exchange reaches the token endpoint and its body decodes, the
  negotiator returns the \<^verbatim>\<open>token\<close> field if it is present, also when
  \<^verbatim>\<open>access_token\<close> is present too, and the \<^verbatim>\<open>access_token\<close> field otherwise.
\<close>

theorem token_preferred:
  assumes "Client_Do w \<lparr> Method = ''GET'', URL = url, Header = Map.empty \<rparr> = Inr resp"
    and "StatusCode resp = 401"
    and "bearerRegex_MatchString (Header_Get (Response.Header resp) ''Www-Authenticate'')"
    and "parse_challenge w (Header_Get (Response.Header resp) ''Www-Authenticate'') = Inr a"
    and "Client_Do w (realm_request w a (Registry.Username r) (Registry.Password r)) = Inr resp2"
    and "json_Decode_authToken w (Body resp2) = Inr t"
  shows "(Token t \<noteq> [] \<longrightarrow> fst (Registry_Token w r url) = Inr (Token t))
         \<and> (Token t = [] \<longrightarrow> fst (Registry_Token w r url) = Inr (AccessToken t))"
  unfolding Token_unfold [OF assms(1)] using assms(2-6) by (simp add: Let_def)

text \<open>The two example challenges match their patterns.\<close>

lemma basic_example_matches: \<open>basicRegex_MatchString ''Basic realm="Registry Realm"''\<close>
  by (simp add: basicRegex_MatchString_def scheme_MatchString_def isSpace_def)

lemma bearer_example_matches: "bearerRegex_MatchString bearer_challenge"
  by (simp add: bearerRegex_MatchString_def scheme_MatchString_def isSpace_def bearer_challenge_def)


subsection \<open>Witnesses\<close>





text \<open>Both methods with the token \<^verbatim>\<open>abc\<close>, and both with none.\<close>

theorem authorization_header_witness:
  "(\<exists>req. snd (Registry_Digest
                 (answering \<lparr> StatusCode = 200, Header = Map.empty, Body = (''{}'', None) \<rparr>)
                 dockerhub alpine ''abc'') = [req]
          \<and> Request.Header req ''Authorization'' = Some [''Bearer abc''])
   \<and> (\<exists>req. snd (Registry_Digest
                 (answering \<lparr> StatusCode = 200, Header = Map.empty, Body = (''{}'', None) \<rparr>)
                 dockerhub alpine []) = [req]
          \<and> Request.Header req ''Authorization'' = None)
   \<and> (\<exists>req. snd (Registry_Blob
                 (answering \<lparr> StatusCode = 200, Header = Map.empty, Body = (''{}'', None) \<rparr>)
                 dockerhub alpine ''abc'') = [req]
          \<and> Request.Header req ''Authorization'' = Some [''Bearer abc''])
   \<and> (\<exists>req. snd (Registry_Blob
                 (answering \<lparr> StatusCode = 200, Header = Map.empty, Body = (''{}'', None) \<rparr>)
                 dockerhub alpine []) = [req]
          \<and> Request.Header req ''Authorization'' = None)"
proof -
  let ?w = "answering \<lparr> StatusCode = 200, Header = Map.empty, Body = (''{}'', None) \<rparr>"
  have c: "\<not> length (Image.Digest alpine) > 1" by (simp add: alpine_short)
  have p: "url_Parse_err ?w (GetDigestUrl dockerhub alpine) = None"
    and q: "url_Parse_err ?w (GetBlobUrl dockerhub alpine) = None"
    by (simp_all add: answering_simps)
  note t = authorization_header
    [where w = ?w and r = dockerhub and img = alpine and token = "''abc''"]
  note n = authorization_header
    [where w = ?w and r = dockerhub and img = alpine and token = "[]"]
  from t c p have 1: "\<exists>req. snd (Registry_Digest ?w dockerhub alpine ''abc'') = [req]
          \<and> Request.Header req ''Authorization'' = Some [''Bearer abc'']"
    by auto
  from n c p have 2: "\<exists>req. snd (Registry_Digest ?w dockerhub alpine []) = [req]
          \<and> Request.Header req ''Authorization'' = None"
    by auto
  from t q have 3: "\<exists>req. snd (Registry_Blob ?w dockerhub alpine ''abc'') = [req]
          \<and> Request.Header req ''Authorization'' = Some [''Bearer abc'']"
    by auto
  from n q have 4: "\<exists>req. snd (Registry_Blob ?w dockerhub alpine []) = [req]
          \<and> Request.Header req ''Authorization'' = None"
    by auto
  from 1 2 3 4 show ?thesis by blast
qed

text \<open>
  The gzip form of \<^verbatim>\<open>{}\<close> and the plain body \<^verbatim>\<open>{}\<close> decode to the same bytes; a
  gzip body cut after its header and a plain body whose read fails give the error.
\<close>

theorem GetRespBody_decodes_witness:
  "GetRespBody offline
     \<lparr> StatusCode = 200, Header = [''Content-Encoding'' \<mapsto> [''gzip'']],
       Body = (gzipped_braces, None) \<rparr>
   = Returns (Inr ''{}'')
   \<and> GetRespBody offline
       \<lparr> StatusCode = 200, Header = Map.empty, Body = (''{}'', None) \<rparr>
     = Returns (Inr ''{}'')
   \<and> GetRespBody offline
       \<lparr> StatusCode = 200, Header = [''Content-Encoding'' \<mapsto> [''gzip'']],
         Body = (gzipped_braces, None) \<rparr>
     = GetRespBody offline
         \<lparr> StatusCode = 200, Header = Map.empty, Body = (''{}'', None) \<rparr>
   \<and> GetRespBody offline
       \<lparr> StatusCode = 200, Header = [''Content-Encoding'' \<mapsto> [''gzip'']],
         Body = (take 10 gzipped_braces, None) \<rparr>
     = Returns (Inl (ReadError ''unexpected EOF''))
   \<and> GetRespBody offline
       \<lparr> StatusCode = 200, Header = Map.empty,
         Body = (''{}'', Some (ReadError ''connection reset'')) \<rparr>
     = Returns (Inl (ReadError ''connection reset''))"
proof -
  let ?gz = "\<lparr> StatusCode = 200, Header = [''Content-Encoding'' \<mapsto> [''gzip'']],
               Body = (gzipped_braces, None) \<rparr>"
  let ?plain = "\<lparr> StatusCode = 200, Header = Map.empty, Body = (''{}'', None) \<rparr>"
  let ?cut = "\<lparr> StatusCode = 200, Header = [''Content-Encoding'' \<mapsto> [''gzip'']],
                Body = (take 10 gzipped_braces, None) \<rparr>"
  let ?reset = "\<lparr> StatusCode = 200, Header = Map.empty,
                  Body = (''{}'', Some (ReadError ''connection reset'')) \<rparr>"
  have h1: "Header_Get (Response.Header ?gz) ''Content-Encoding'' = ''gzip''"
    by (simp add: Header_Get_def)
  have h2: "Header_Get (Response.Header ?plain) ''Content-Encoding'' \<noteq> ''gzip''"
    by (simp add: Header_Get_def)
  have h3: "Header_Get (Response.Header ?cut) ''Content-Encoding'' = ''gzip''"
    by (simp add: Header_Get_def)
  have h4: "Header_Get (Response.Header ?reset) ''Content-Encoding'' \<noteq> ''gzip''"
    by (simp add: Header_Get_def)
  have z: "gzip_NewReader offline (Body ?gz) = Inr (''{}'', None)"
    by (simp add: offline_def example_world_def gzip_example_def)
  have z3: "gzip_NewReader offline (Body ?gz) = Inr (Body ?plain)"
    using z by simp
  have zc: "gzip_NewReader offline (Body ?cut) = Inr ([], Some (ReadError ''unexpected EOF''))"
    by (simp add: offline_def example_world_def gzip_example_def gzipped_braces_def)
  have b: "Body ?plain = (''{}'', None)" by simp
  have br: "Body ?reset = (''{}'', Some (ReadError ''connection reset''))" by simp
  note gz = GetRespBody_decodes
    [where w = offline and resp = ?gz and x = "''{}''" and resp' = ?plain]
  from gz h1 z have 1: "GetRespBody offline ?gz = Returns (Inr ''{}'')"
    by blast
  from gz h1 h2 z3 have 3: "GetRespBody offline ?gz = GetRespBody offline ?plain"
    by blast
  from GetRespBody_decodes [where w = offline and resp = ?plain and x = "''{}''"] h2 b
  have 2: "GetRespBody offline ?plain = Returns (Inr ''{}'')"
    by blast
  from GetRespBody_decodes
    [where w = offline and resp = ?cut and x = "[]" and err = "ReadError ''unexpected EOF''"]
    h3 zc
  have 4: "GetRespBody offline ?cut = Returns (Inl (ReadError ''unexpected EOF''))"
    by blast
  from GetRespBody_decodes
    [where w = offline and resp = ?reset and x = "''{}''"
       and err = "ReadError ''connection reset''"]
    h4 br
  have 5: "GetRespBody offline ?reset = Returns (Inl (ReadError ''connection reset''))"
    by blast
  from 1 2 3 4 5 show ?thesis by simp
qed

text \<open>A registry that asks for basic authentication.\<close>

theorem basic_challenge_fails_fast_witness:
  "Registry_Token basic_registry dockerhub ''https://registry.example.com/v2/''
   = (Inl ErrBasicAuth,
      [\<lparr> Method = ''GET'', URL = ''https://registry.example.com/v2/'', Header = Map.empty \<rparr>])"
proof -
  let ?resp = \<open>\<lparr> StatusCode = 401,
                 Header = [''Www-Authenticate'' \<mapsto> [''Basic realm="Registry Realm"'']],
                 Body = ([], None) \<rparr>\<close>
  have do: "Client_Do basic_registry
      \<lparr> Method = ''GET'', URL = ''https://registry.example.com/v2/'', Header = Map.empty \<rparr>
      = Inr ?resp"
    by (simp add: basic_registry_def answering_simps)
  have st: "StatusCode ?resp = 401" by simp
  have m: "basicRegex_MatchString (Header_Get (Response.Header ?resp) ''Www-Authenticate'')"
    by (simp add: Header_Get_def basic_example_matches)
  show ?thesis by (rule basic_challenge_fails_fast [OF do st m])
qed

text \<open>A token endpoint that sends both fields: the result is the \<^verbatim>\<open>token\<close> field.\<close>

theorem token_preferred_witness:
  "fst (Registry_Token bearer_registry dockerhub
          ''https://registry-1.docker.io/v2/library/alpine/manifests/latest'')
   = Inr ''abc''"
proof -
  let ?url = "''https://registry-1.docker.io/v2/library/alpine/manifests/latest''"
  let ?resp = "\<lparr> StatusCode = 401, Header = [''Www-Authenticate'' \<mapsto> [bearer_challenge]],
                 Body = ([], None) \<rparr>"
  let ?a = "\<lparr> Realm = ''https://auth.docker.io/token'', Service = ''registry.docker.io'',
              Scope = [''repository:library/alpine:pull''] \<rparr>"
  let ?resp2 = "\<lparr> StatusCode = 200, Header = Map.empty, Body = (token_body, None) \<rparr>"
  let ?t = "\<lparr> Token = ''abc'', AccessToken = ''xyz'' \<rparr>"
  have do: "Client_Do bearer_registry \<lparr> Method = ''GET'', URL = ?url, Header = Map.empty \<rparr>
            = Inr ?resp"
    by (simp add: bearer_registry_def example_world_def token_url_def)
  have st: "StatusCode ?resp = 401" by simp
  have m: "bearerRegex_MatchString (Header_Get (Response.Header ?resp) ''Www-Authenticate'')"
    by (simp add: Header_Get_def bearer_example_matches)
  have pc: "parse_challenge bearer_registry
              (Header_Get (Response.Header ?resp) ''Www-Authenticate'') = Inr ?a"
    by (simp add: Header_Get_def bearer_registry_def example_world_def)
  have do2: "Client_Do bearer_registry
               (realm_request bearer_registry ?a (Registry.Username dockerhub)
                  (Registry.Password dockerhub)) = Inr ?resp2"
    by (simp add: bearer_registry_def example_world_def)
  have dec: "json_Decode_authToken bearer_registry (Body ?resp2) = Inr ?t"
    by (simp add: bearer_registry_def example_world_def)
  from token_preferred [OF do st m pc do2 dec] show ?thesis by simp
qed

end
